theory Spec2Isabelle
  imports Main "HOL-Library.Sublist"
begin

section \<open>The type algebra consumed by the dynamic-cast utilities\<close>

text \<open>
  \<^verbatim>\<open>lib/SIL/DynamicCasts.cpp\<close> works on canonical types through a handful of queries
  (\<^verbatim>\<open>getAnyOptionalObjectType\<close>, \<^verbatim>\<open>hasArchetype\<close>, \<^verbatim>\<open>isExistentialType\<close>,
  \<^verbatim>\<open>dyn_cast<AnyMetatypeType>\<close>, \<^verbatim>\<open>getClassOrBoundGenericClass\<close>,
  \<^verbatim>\<open>isSuperclassOf\<close>). The types and the queries live in the AST library; they are
  modelled here as a closed datatype with structural equality, one variant per kind of
  type the queries tell apart.
\<close>

datatype OptionalTypeKind = OTK_Optional | OTK_ImplicitlyUnwrappedOptional

text \<open>
  Modelled from the spec: the class declarations of the AST library. A class type points
  to its declaration, and the declaration to its superclass (if any); the chain of
  superclasses is finite.
\<close>

datatype ClassDecl = ClassDecl string "ClassDecl option"

text \<open>
  Modelled from the spec: the canonical types of the AST library ("a nominal class type,
  an existential (protocol) type, a generic archetype, a metatype wrapping another type
  (with an existential metatype variant), an optional wrapper around another type, or
  none of the above", with structural equality). The two optional flavours are the two
  values of \<^verbatim>\<open>OptionalTypeKind\<close> that \<^verbatim>\<open>getAnyOptionalObjectType\<close> reports.
\<close>

datatype CanType =
    ClassType ClassDecl
  | ProtocolType string
  | ArchetypeType string
  | MetatypeType CanType
  | ExistentialMetatypeType CanType
  | OptionalType OptionalTypeKind CanType
  | StructType string

datatype MetatypeKind = PlainMetatype | ExistentialMetatype

text \<open>Modelled from the spec: "unwrap one layer of optional, if any, and report which
  optional flavor".\<close>

fun getAnyOptionalObjectTypeKind :: "CanType \<Rightarrow> (OptionalTypeKind \<times> CanType) option" where
  "getAnyOptionalObjectTypeKind (OptionalType k obj) = Some (k, obj)"
| "getAnyOptionalObjectTypeKind _ = None"

definition getAnyOptionalObjectType :: "CanType \<Rightarrow> CanType option" where
  "getAnyOptionalObjectType type = map_option snd (getAnyOptionalObjectTypeKind type)"

text \<open>Modelled from the spec: "is this type an existential / an unresolved generic
  archetype" predicates. \<^verbatim>\<open>hasArchetype\<close> is a recursive property of the type:
  it holds when an archetype occurs anywhere inside.\<close>

fun hasArchetype :: "CanType \<Rightarrow> bool" where
  "hasArchetype (ArchetypeType _) = True"
| "hasArchetype (MetatypeType t) = hasArchetype t"
| "hasArchetype (ExistentialMetatypeType t) = hasArchetype t"
| "hasArchetype (OptionalType _ t) = hasArchetype t"
| "hasArchetype _ = False"

fun isExistentialType :: "CanType \<Rightarrow> bool" where
  "isExistentialType (ProtocolType _) = True"
| "isExistentialType _ = False"

text \<open>Modelled from the spec: "is this type a metatype, and if so is it an existential
  metatype, and what is its instance type". The result of the cast is the view of the
  type as a metatype: its kind and its instance type.\<close>

fun dyn_cast_AnyMetatypeType :: "CanType \<Rightarrow> (MetatypeKind \<times> CanType) option" where
  "dyn_cast_AnyMetatypeType (MetatypeType t) = Some (PlainMetatype, t)"
| "dyn_cast_AnyMetatypeType (ExistentialMetatypeType t) = Some (ExistentialMetatype, t)"
| "dyn_cast_AnyMetatypeType _ = None"

definition getInstanceType :: "MetatypeKind \<times> CanType \<Rightarrow> CanType" where
  "getInstanceType metatype = snd metatype"

definition isa_ExistentialMetatypeType :: "MetatypeKind \<times> CanType \<Rightarrow> bool" where
  "isa_ExistentialMetatypeType metatype = (fst metatype = ExistentialMetatype)"

text \<open>Modelled from the spec: "get the class this type denotes, if any" and "is type A
  an ancestor-or-self of type B". \<^verbatim>\<open>isSuperclassOf\<close> walks the superclass chain of
  its argument, starting with the argument itself, looking for the receiver.\<close>

fun getClassOrBoundGenericClass :: "CanType \<Rightarrow> ClassDecl option" where
  "getClassOrBoundGenericClass (ClassType d) = Some d"
| "getClassOrBoundGenericClass _ = None"

fun superclassWalk :: "ClassDecl \<Rightarrow> ClassDecl \<Rightarrow> bool" where
  "superclassWalk this (ClassDecl name None) = (ClassDecl name None = this)"
| "superclassWalk this (ClassDecl name (Some super)) =
     (if ClassDecl name (Some super) = this then True else superclassWalk this super)"

definition isSuperclassOf :: "CanType \<Rightarrow> CanType \<Rightarrow> bool" where
  "isSuperclassOf this ty =
     (case (getClassOrBoundGenericClass this, getClassOrBoundGenericClass ty) of
        (Some c, Some d) \<Rightarrow> superclassWalk c d
      | _ \<Rightarrow> False)"

section \<open>The feasibility classifier\<close>

datatype DynamicCastFeasibility = WillSucceed | MaySucceed | WillFail

definition weakenSuccess :: "DynamicCastFeasibility \<Rightarrow> DynamicCastFeasibility" where
  "weakenSuccess v = (if v = WillSucceed then MaySucceed else v)"

text \<open>
  \<^verbatim>\<open>getAnyMetatypeDepth\<close>: the loop strips metatype layers and returns the counter
  \<^verbatim>\<open>depth\<close>, which the loop body never changes.
\<close>

lemma dyn_cast_AnyMetatypeType_size:
  "dyn_cast_AnyMetatypeType type = Some metatype \<Longrightarrow> size (getInstanceType metatype) < size type"
  by (cases type) (auto simp: getInstanceType_def)

function getAnyMetatypeDepth_loop :: "CanType \<Rightarrow> nat \<Rightarrow> nat" where
  "getAnyMetatypeDepth_loop type depth =
     (case dyn_cast_AnyMetatypeType type of
        Some metatype \<Rightarrow> getAnyMetatypeDepth_loop (getInstanceType metatype) depth
      | None \<Rightarrow> depth)"
  by pat_completeness auto
termination
  by (relation "measure (\<lambda>(type, depth). size type)")
     (auto simp: dyn_cast_AnyMetatypeType_size)

definition getAnyMetatypeDepth :: "CanType \<Rightarrow> nat" where
  "getAnyMetatypeDepth type = getAnyMetatypeDepth_loop type 0"

text \<open>
  \<^verbatim>\<open>getOptionalDepth\<close> counts the optional layers of a type. The counter is an
  \<^verbatim>\<open>unsigned\<close> in the source; it is a natural number here, a type having far fewer
  than \<open>2 ^ 32\<close> layers.
\<close>

lemma getAnyOptionalObjectType_size:
  "getAnyOptionalObjectType type = Some objectType \<Longrightarrow> size objectType < size type"
  by (cases type) (auto simp: getAnyOptionalObjectType_def)

function getOptionalDepth_loop :: "CanType \<Rightarrow> nat \<Rightarrow> nat" where
  "getOptionalDepth_loop type depth =
     (case getAnyOptionalObjectType type of
        Some objectType \<Rightarrow> getOptionalDepth_loop objectType (depth + 1)
      | None \<Rightarrow> depth)"
  by pat_completeness auto
termination
  by (relation "measure (\<lambda>(type, depth). size type)")
     (auto simp: getAnyOptionalObjectType_size)

definition getOptionalDepth :: "CanType \<Rightarrow> nat" where
  "getOptionalDepth type = getOptionalDepth_loop type 0"

lemma getOptionalDepth_loop_add:
  "getOptionalDepth_loop type depth = getOptionalDepth_loop type 0 + depth"
proof (induction type arbitrary: depth)
  case (OptionalType k obj)
  have "getOptionalDepth_loop (OptionalType k obj) depth = getOptionalDepth_loop obj (depth + 1)"
    by (simp add: getAnyOptionalObjectType_def)
  also have "\<dots> = getOptionalDepth_loop obj 0 + (depth + 1)"
    by (rule OptionalType.IH)
  also have "\<dots> = getOptionalDepth_loop obj (0 + 1) + depth"
    using OptionalType.IH [of "0 + 1"] by simp
  also have "\<dots> = getOptionalDepth_loop (OptionalType k obj) 0 + depth"
    by (simp add: getAnyOptionalObjectType_def)
  finally show ?case .
qed (simp_all add: getAnyOptionalObjectType_def)

lemma getOptionalDepth_OptionalType:
  "getOptionalDepth (OptionalType k obj) = Suc (getOptionalDepth obj)"
  using getOptionalDepth_loop_add [of obj 1]
  by (simp add: getOptionalDepth_def getAnyOptionalObjectType_def)

lemma getOptionalDepth_object:
  "getAnyOptionalObjectType type = Some objectType \<Longrightarrow>
   getOptionalDepth type = Suc (getOptionalDepth objectType)"
  by (cases type) (auto simp: getAnyOptionalObjectType_def getOptionalDepth_OptionalType)

lemma getOptionalDepth_nonoptional:
  "getAnyOptionalObjectType type = None \<Longrightarrow> getOptionalDepth type = 0"
  by (simp add: getOptionalDepth_def)

text \<open>
  The metatype loop of \<^verbatim>\<open>classifyDynamicCast\<close>. It either returns a verdict from
  inside the loop (\<open>Inl\<close>) or leaves the loop with the instance types reached
  (\<open>Inr\<close>), on which the class comparison then runs.
\<close>

function metatypeLoop :: "CanType \<Rightarrow> CanType \<Rightarrow> DynamicCastFeasibility + (CanType \<times> CanType)" where
  "metatypeLoop source target =
     (case dyn_cast_AnyMetatypeType source of
        None \<Rightarrow> Inr (source, target)
      | Some sourceMetatype \<Rightarrow>
          (case dyn_cast_AnyMetatypeType target of
             None \<Rightarrow> Inl WillFail
           | Some targetMetatype \<Rightarrow>
               (if isa_ExistentialMetatypeType sourceMetatype \<or>
                   isa_ExistentialMetatypeType targetMetatype
                then Inl (if getAnyMetatypeDepth (getInstanceType sourceMetatype) =
                             getAnyMetatypeDepth (getInstanceType targetMetatype)
                          then MaySucceed else WillFail)
                else metatypeLoop (getInstanceType sourceMetatype)
                                  (getInstanceType targetMetatype))))"
  by pat_completeness auto
termination
  by (relation "measure (\<lambda>(source, target). size source)")
     (auto simp: dyn_cast_AnyMetatypeType_size)

definition classCasts :: "CanType \<Rightarrow> CanType \<Rightarrow> DynamicCastFeasibility" where
  "classCasts source target =
     (case (getClassOrBoundGenericClass source, getClassOrBoundGenericClass target) of
        (Some sourceClass, Some targetClass) \<Rightarrow>
          (if isSuperclassOf target source then WillSucceed
           else if isSuperclassOf source target then MaySucceed
           else WillFail)
      | _ \<Rightarrow> WillFail)"

function classifyDynamicCast :: "CanType \<Rightarrow> CanType \<Rightarrow> DynamicCastFeasibility" where
  "classifyDynamicCast source target =
     (if source = target then WillSucceed
      else
        (case (getAnyOptionalObjectType source, getAnyOptionalObjectType target) of
           (Some sourceObject, Some targetObject) \<Rightarrow>
             classifyDynamicCast sourceObject targetObject
         | (None, Some targetObject) \<Rightarrow>
             classifyDynamicCast source targetObject
         | (Some sourceObject, None) \<Rightarrow>
             weakenSuccess (classifyDynamicCast sourceObject target)
         | (None, None) \<Rightarrow>
             (if hasArchetype source \<or> isExistentialType source \<or>
                 hasArchetype target \<or> isExistentialType target
              then MaySucceed
              else
                (case metatypeLoop source target of
                   Inl verdict \<Rightarrow> verdict
                 | Inr (source', target') \<Rightarrow> classCasts source' target'))))"
  by pat_completeness auto
termination
  by (relation "measure (\<lambda>(source, target). getOptionalDepth source + getOptionalDepth target)")
     (auto dest!: getOptionalDepth_object [OF sym])

declare getAnyMetatypeDepth_loop.simps [simp del]
declare getOptionalDepth_loop.simps [simp del]
declare metatypeLoop.simps [simp del]
declare classifyDynamicCast.simps [simp del]

section \<open>SIL values, instructions and the builder\<close>

text \<open>
  The emitter half of \<^verbatim>\<open>DynamicCasts.cpp\<close> talks to the SIL library: lowered types,
  values, the instruction builder and the type-lowering operations. None of them is part
  of the file; each is modelled by the least that the emitter observes of it.
\<close>

text \<open>Modelled from the spec: the consumption kind of a source ("take-always", "copy-on-success";
  \<^verbatim>\<open>shouldTake\<close> compares against \<^verbatim>\<open>CopyOnSuccess\<close> only).\<close>

datatype CastConsumptionKind = TakeAlways | TakeOnSuccess | CopyOnSuccess

text \<open>Modelled from the spec: a lowered type is a type together with its representation
  ("a value is either a scalar or an address"); the container result of a stack
  allocation has a third category of its own.\<close>

datatype SILValueCategory = ObjectCategory | AddressCategory | LocalStorageCategory

record SILType =
  RValueType :: CanType
  Category :: SILValueCategory

definition isAddress :: "SILType \<Rightarrow> bool" where
  "isAddress ty = (Category ty = AddressCategory)"

definition getObjectType :: "SILType \<Rightarrow> SILType" where
  "getObjectType ty = ty\<lparr>Category := ObjectCategory\<rparr>"

definition getAddressType :: "SILType \<Rightarrow> SILType" where
  "getAddressType ty = ty\<lparr>Category := AddressCategory\<rparr>"

definition getLocalStorageType :: "SILType \<Rightarrow> SILType" where
  "getLocalStorageType ty = ty\<lparr>Category := LocalStorageCategory\<rparr>"

text \<open>Modelled from the spec: the "present" and "absent" cases of each optional flavour, and
  the lowered type of the payload of the present case, which keeps the category of the
  optional it is taken from. Asking for the payload of a case that the type does not have
  trips an assertion of the SIL library (\<open>None\<close> here).\<close>

datatype EnumElementDecl = OptionalSomeDecl OptionalTypeKind | OptionalNoneDecl OptionalTypeKind

definition getOptionalSomeDecl :: "OptionalTypeKind \<Rightarrow> EnumElementDecl" where
  "getOptionalSomeDecl kind = OptionalSomeDecl kind"

definition getOptionalNoneDecl :: "OptionalTypeKind \<Rightarrow> EnumElementDecl" where
  "getOptionalNoneDecl kind = OptionalNoneDecl kind"

definition getEnumElementType :: "SILType \<Rightarrow> EnumElementDecl \<Rightarrow> SILType option" where
  "getEnumElementType ty elt =
     (case (RValueType ty, elt) of
        (OptionalType k obj, OptionalSomeDecl k') \<Rightarrow>
          (if k = k' then Some \<lparr>RValueType = obj, Category = Category ty\<rparr> else None)
      | _ \<Rightarrow> None)"

text \<open>Modelled from the spec: a value is a result of an instruction or a block argument; it
  is named by the number of its definition and the index of the result, and carries its
  lowered type.\<close>

datatype SILValue = SILValue (Def: nat) (ResultNumber: nat) (getType: SILType)

text \<open>Modelled from the spec: the instructions the emitter creates, with the operands it
  passes. An instruction that defines a value carries the number of the definition.\<close>

datatype SILInstruction =
    SwitchEnumAddrInst SILValue "(EnumElementDecl \<times> nat) list"
  | SwitchEnumInst SILValue "(EnumElementDecl \<times> nat) list"
  | AllocStackInst nat SILType
  | CopyAddrInst SILValue SILValue bool bool
  | UncheckedTakeEnumDataAddrInst nat SILValue EnumElementDecl SILType
  | DeallocStackInst SILValue
  | BranchInst nat "SILValue list"
  | UpcastInst nat SILValue SILType
  | InitEnumDataAddrInst nat SILValue EnumElementDecl SILType
  | InjectEnumAddrInst SILValue EnumElementDecl
  | EnumInst nat "SILValue option" EnumElementDecl SILType

text \<open>
  Modelled from the spec: the builder ("block/instruction construction primitives") and the
  type-lowering operations ("load-with-optional-take, store-as-initialization,
  copy-into-address, retain-in-place"). The builder is not interpreted: its state is
  the sequence of calls made on it so far, in order, together with the counters from which
  fresh values and blocks are numbered. What the emitter emits is what it appends to
  \<open>Events\<close>.
\<close>

datatype BuilderEvent =
    SplitBlockForFallthrough nat
  | SetInsertionPoint nat
  | Create SILInstruction
  | NewSILArgument nat SILType nat
  | EmitRetainValue SILType SILValue
  | EmitLoadOfCopy SILType nat SILValue bool
  | EmitStoreOfCopy SILType SILValue SILValue bool
  | EmitCopyInto SILType SILValue SILValue bool bool

record SILBuilder =
  Events :: "BuilderEvent list"
  NextValue :: nat
  NextBlock :: nat

text \<open>
  The source states its internal-consistency checks with \<^verbatim>\<open>assert\<close>, which is code
  only in a build with assertions enabled; with \<^verbatim>\<open>NDEBUG\<close> defined it is no code
  at all. Every function of the emitter therefore takes the build as a parameter.
  \<^item> In a build with assertions, an \<^verbatim>\<open>assert\<close> whose condition is false stops the
    function: it returns \<open>Inl (AssertionFailure text)\<close>, \<open>text\<close> being the asserted
    condition, together with the builder as it stood at that point.
  \<^item> With \<^verbatim>\<open>NDEBUG\<close> the function goes on past the \<^verbatim>\<open>assert\<close> as the source
    does. Where the source then has no defined behaviour (it reads through a null value,
    or asks the AST or SIL library for something that does not exist), the model returns
    \<open>Inl (UndefinedBehavior text)\<close>; nothing is proved about what such a run emits.
\<close>

datatype BuildMode = AssertsEnabled | NDEBUG

datatype CastError = AssertionFailure string | UndefinedBehavior string

definition assertFails :: "BuildMode \<Rightarrow> bool \<Rightarrow> bool" where
  "assertFails build condition = (build = AssertsEnabled \<and> \<not> condition)"

definition unmetAssertion :: "BuildMode \<Rightarrow> string \<Rightarrow> CastError" where
  "unmetAssertion build text =
     (case build of
        AssertsEnabled \<Rightarrow> AssertionFailure text
      | NDEBUG \<Rightarrow> UndefinedBehavior text)"

text \<open>Subtraction of two \<^verbatim>\<open>unsigned\<close> counters, both below \<open>2 ^ 32\<close>: it wraps
  around when the second is the larger.\<close>

definition unsignedMinus :: "nat \<Rightarrow> nat \<Rightarrow> nat" where
  "unsignedMinus a b = (if b \<le> a then a - b else 2 ^ 32 + a - b)"

definition record_event :: "BuilderEvent \<Rightarrow> SILBuilder \<Rightarrow> SILBuilder" where
  "record_event e B = B\<lparr>Events := Events B @ [e]\<rparr>"

definition splitBlockForFallthrough :: "SILBuilder \<Rightarrow> nat \<times> SILBuilder" where
  "splitBlockForFallthrough B =
     (NextBlock B, record_event (SplitBlockForFallthrough (NextBlock B)) (B\<lparr>NextBlock := NextBlock B + 1\<rparr>))"

definition setInsertionPoint :: "nat \<Rightarrow> SILBuilder \<Rightarrow> SILBuilder" where
  "setInsertionPoint bb B = record_event (SetInsertionPoint bb) B"

definition createSwitchEnumAddr :: "SILValue \<Rightarrow> (EnumElementDecl \<times> nat) list \<Rightarrow> SILBuilder \<Rightarrow> SILBuilder" where
  "createSwitchEnumAddr operand cases B = record_event (Create (SwitchEnumAddrInst operand cases)) B"

definition createSwitchEnum :: "SILValue \<Rightarrow> (EnumElementDecl \<times> nat) list \<Rightarrow> SILBuilder \<Rightarrow> SILBuilder" where
  "createSwitchEnum operand cases B = record_event (Create (SwitchEnumInst operand cases)) B"

definition getContainerResult :: "nat \<times> SILType \<Rightarrow> SILValue" where
  "getContainerResult inst = SILValue (fst inst) 0 (getLocalStorageType (snd inst))"

definition getAddressResult :: "nat \<times> SILType \<Rightarrow> SILValue" where
  "getAddressResult inst = SILValue (fst inst) 1 (getAddressType (snd inst))"

definition createAllocStack :: "SILType \<Rightarrow> SILBuilder \<Rightarrow> (nat \<times> SILType) \<times> SILBuilder" where
  "createAllocStack elementType B =
     ((NextValue B, elementType),
      record_event (Create (AllocStackInst (NextValue B) elementType)) (B\<lparr>NextValue := NextValue B + 1\<rparr>))"

definition createCopyAddr :: "SILValue \<Rightarrow> SILValue \<Rightarrow> bool \<Rightarrow> bool \<Rightarrow> SILBuilder \<Rightarrow> SILBuilder" where
  "createCopyAddr src dest isTake isInitialize B =
     record_event (Create (CopyAddrInst src dest isTake isInitialize)) B"

definition createUncheckedTakeEnumDataAddr ::
    "SILValue \<Rightarrow> EnumElementDecl \<Rightarrow> SILType \<Rightarrow> SILBuilder \<Rightarrow> SILValue \<times> SILBuilder" where
  "createUncheckedTakeEnumDataAddr operand element ty B =
     (SILValue (NextValue B) 0 ty,
      record_event (Create (UncheckedTakeEnumDataAddrInst (NextValue B) operand element ty))
        (B\<lparr>NextValue := NextValue B + 1\<rparr>))"

definition createDeallocStack :: "SILValue \<Rightarrow> SILBuilder \<Rightarrow> SILBuilder" where
  "createDeallocStack operand B = record_event (Create (DeallocStackInst operand)) B"

definition createBranch :: "nat \<Rightarrow> SILValue list \<Rightarrow> SILBuilder \<Rightarrow> SILBuilder" where
  "createBranch bb args B = record_event (Create (BranchInst bb args)) B"

definition createUpcast :: "SILValue \<Rightarrow> SILType \<Rightarrow> SILBuilder \<Rightarrow> SILValue \<times> SILBuilder" where
  "createUpcast operand ty B =
     (SILValue (NextValue B) 0 ty,
      record_event (Create (UpcastInst (NextValue B) operand ty)) (B\<lparr>NextValue := NextValue B + 1\<rparr>))"

definition createInitEnumDataAddr ::
    "SILValue \<Rightarrow> EnumElementDecl \<Rightarrow> SILType \<Rightarrow> SILBuilder \<Rightarrow> SILValue \<times> SILBuilder" where
  "createInitEnumDataAddr operand element ty B =
     (SILValue (NextValue B) 0 ty,
      record_event (Create (InitEnumDataAddrInst (NextValue B) operand element ty))
        (B\<lparr>NextValue := NextValue B + 1\<rparr>))"

definition createInjectEnumAddr :: "SILValue \<Rightarrow> EnumElementDecl \<Rightarrow> SILBuilder \<Rightarrow> SILBuilder" where
  "createInjectEnumAddr operand element B = record_event (Create (InjectEnumAddrInst operand element)) B"

definition createEnum ::
    "SILValue option \<Rightarrow> EnumElementDecl \<Rightarrow> SILType \<Rightarrow> SILBuilder \<Rightarrow> SILValue \<times> SILBuilder" where
  "createEnum operand element ty B =
     (SILValue (NextValue B) 0 ty,
      record_event (Create (EnumInst (NextValue B) operand element ty)) (B\<lparr>NextValue := NextValue B + 1\<rparr>))"

definition newSILArgument :: "SILType \<Rightarrow> nat \<Rightarrow> SILBuilder \<Rightarrow> SILValue \<times> SILBuilder" where
  "newSILArgument ty bb B =
     (SILValue (NextValue B) 0 ty,
      record_event (NewSILArgument (NextValue B) ty bb) (B\<lparr>NextValue := NextValue B + 1\<rparr>))"

type_synonym TypeLowering = SILType

definition getTypeLowering :: "SILType \<Rightarrow> TypeLowering" where
  "getTypeLowering ty = ty"

definition emitRetainValue :: "TypeLowering \<Rightarrow> SILValue \<Rightarrow> SILBuilder \<Rightarrow> SILBuilder" where
  "emitRetainValue TL v B = record_event (EmitRetainValue TL v) B"

definition emitLoadOfCopy :: "TypeLowering \<Rightarrow> SILValue \<Rightarrow> bool \<Rightarrow> SILBuilder \<Rightarrow> SILValue \<times> SILBuilder" where
  "emitLoadOfCopy TL addr isTake B =
     (SILValue (NextValue B) 0 (getObjectType (getType addr)),
      record_event (EmitLoadOfCopy TL (NextValue B) addr isTake) (B\<lparr>NextValue := NextValue B + 1\<rparr>))"

definition emitStoreOfCopy :: "TypeLowering \<Rightarrow> SILValue \<Rightarrow> SILValue \<Rightarrow> bool \<Rightarrow> SILBuilder \<Rightarrow> SILBuilder" where
  "emitStoreOfCopy TL v addr isInit B = record_event (EmitStoreOfCopy TL v addr isInit) B"

definition emitCopyInto ::
    "TypeLowering \<Rightarrow> SILValue \<Rightarrow> SILValue \<Rightarrow> bool \<Rightarrow> bool \<Rightarrow> SILBuilder \<Rightarrow> SILBuilder" where
  "emitCopyInto TL src dest isTake isInit B = record_event (EmitCopyInto TL src dest isTake isInit) B"

definition IsInitialization :: bool where "IsInitialization = True"
definition IsNotTake :: bool where "IsNotTake = False"

section \<open>Source and Target descriptors\<close>

text \<open>
  The structs \<^verbatim>\<open>Source\<close> and \<^verbatim>\<open>Target\<close>. A target without an address has the null
  value in \<^verbatim>\<open>Address\<close> (\<open>None\<close>). The two constructors of \<^verbatim>\<open>Target\<close> are
  \<open>Target_address\<close> and \<open>Target_scalar\<close>; each asserts the category it expects.
  \<^verbatim>\<open>asAddressSource\<close> on a target without an address would, with \<^verbatim>\<open>NDEBUG\<close>,
  make a source around the null value; every call of it in the file is under
  \<^verbatim>\<open>target.isAddress()\<close>, so the case does not arise there.
\<close>

record Source =
  Value :: SILValue
  FormalType :: CanType
  Consumption :: CastConsumptionKind

record Target =
  Address :: "SILValue option"
  LoweredType :: SILType
  FormalType :: CanType

definition Source_isAddress :: "Source \<Rightarrow> bool" where
  "Source_isAddress source = isAddress (getType (Value source))"

definition shouldTake :: "Source \<Rightarrow> bool" where
  "shouldTake source = (Consumption source \<noteq> CopyOnSuccess)"

definition Target_isAddress :: "Target \<Rightarrow> bool" where
  "Target_isAddress target = (Address target \<noteq> None)"

definition asAddressSource :: "BuildMode \<Rightarrow> Target \<Rightarrow> CastError + Source" where
  "asAddressSource build target =
     (case Address target of
        None \<Rightarrow> Inl (unmetAssertion build ''isAddress()'')
      | Some address \<Rightarrow>
          Inr \<lparr>Value = address, Source.FormalType = Target.FormalType target,
               Consumption = TakeAlways\<rparr>)"

definition asScalarSource :: "BuildMode \<Rightarrow> Target \<Rightarrow> SILValue \<Rightarrow> CastError + Source" where
  "asScalarSource build target v =
     (if assertFails build (\<not> Target_isAddress target)
      then Inl (AssertionFailure ''!isAddress()'')
      else if assertFails build (\<not> isAddress (getType v))
      then Inl (AssertionFailure ''!value.getType().isAddress()'')
      else Inr \<lparr>Value = v, Source.FormalType = Target.FormalType target,
                Consumption = TakeAlways\<rparr>)"

definition Target_address :: "BuildMode \<Rightarrow> SILValue \<Rightarrow> CanType \<Rightarrow> CastError + Target" where
  "Target_address build address formalType =
     (if assertFails build (isAddress (getType address))
      then Inl (AssertionFailure ''LoweredType.isAddress()'')
      else Inr \<lparr>Address = Some address, LoweredType = getType address,
                Target.FormalType = formalType\<rparr>)"

definition Target_scalar :: "BuildMode \<Rightarrow> SILType \<Rightarrow> CanType \<Rightarrow> CastError + Target" where
  "Target_scalar build loweredType formalType =
     (if assertFails build (\<not> isAddress loweredType)
      then Inl (AssertionFailure ''!loweredType.isAddress()'')
      else Inr \<lparr>Address = None, LoweredType = loweredType, Target.FormalType = formalType\<rparr>)"

section \<open>The cast emitter\<close>

text \<open>
  The methods of \<^verbatim>\<open>CastEmitter\<close>, each threading the builder. Where the source
  tests \<^verbatim>\<open>target.isAddress()\<close> and then reads \<^verbatim>\<open>target.Address\<close>, the model
  matches on \<open>Address target\<close>, which is the same test.
\<close>

record EmitSomeState =
  SomeDecl :: EnumElementDecl

definition getOwnedScalar ::
    "BuildMode \<Rightarrow> Source \<Rightarrow> TypeLowering \<Rightarrow> SILBuilder \<Rightarrow> (CastError + SILValue) \<times> SILBuilder" where
  "getOwnedScalar build source srcTL B =
     (if assertFails build (\<not> Source_isAddress source)
      then (Inl (AssertionFailure ''!source.isAddress()''), B)
      else (Inr (Value source),
            if \<not> shouldTake source then emitRetainValue srcTL (Value source) B else B))"

definition putOwnedScalar ::
    "BuildMode \<Rightarrow> SILValue \<Rightarrow> Target \<Rightarrow> SILBuilder \<Rightarrow> (CastError + Source) \<times> SILBuilder" where
  "putOwnedScalar build scalar target B =
     (if assertFails build (getType scalar = getObjectType (LoweredType target))
      then (Inl (AssertionFailure ''scalar.getType() == target.LoweredType.getObjectType()''), B)
      else
        (case Address target of
           None \<Rightarrow> (asScalarSource build target scalar, B)
         | Some address \<Rightarrow>
             (let targetTL = getTypeLowering (LoweredType target);
                  B1 = emitStoreOfCopy targetTL scalar address IsInitialization B
              in (asAddressSource build target, B1))))"

definition emitSameType ::
    "BuildMode \<Rightarrow> Source \<Rightarrow> Target \<Rightarrow> SILBuilder \<Rightarrow> (CastError + Source) \<times> SILBuilder" where
  "emitSameType build source target B =
     (if assertFails build (Source.FormalType source = Target.FormalType target)
      then (Inl (AssertionFailure ''source.FormalType == target.FormalType''), B)
      else
        (let srcTL = getTypeLowering (getType (Value source)) in
         case (if \<not> Source_isAddress source
               then (case getOwnedScalar build source srcTL B of
                       (Inl e, B1) \<Rightarrow> (Inl e, B1)
                     | (Inr v, B1) \<Rightarrow> (Inr (source\<lparr>Value := v, Consumption := TakeAlways\<rparr>), B1))
               else (Inr source, B)) of
           (Inl e, B1) \<Rightarrow> (Inl e, B1)
         | (Inr source, B1) \<Rightarrow>
             (if \<not> Target_isAddress target \<and> \<not> Source_isAddress source then (Inr source, B1)
              else
                (case Address target of
                   None \<Rightarrow>
                     (let (v, B2) = emitLoadOfCopy srcTL (Value source) (shouldTake source) B1
                      in (asScalarSource build target v, B2))
                 | Some address \<Rightarrow>
                     (let B2 = (if Source_isAddress source
                                then emitCopyInto srcTL (Value source) address
                                       (shouldTake source) IsInitialization B1
                                else emitStoreOfCopy srcTL (Value source) address
                                       IsInitialization B1)
                      in (asAddressSource build target, B2))))))"

text \<open>The last part of \<^verbatim>\<open>emit\<close>: "The only other thing we return WillSucceed for
  currently is an upcast."\<close>

definition emit_upcast ::
    "BuildMode \<Rightarrow> Source \<Rightarrow> Target \<Rightarrow> SILBuilder \<Rightarrow> (CastError + Source) \<times> SILBuilder" where
  "emit_upcast build source target B =
     (let srcTL = getTypeLowering (getType (Value source)) in
      case (if Source_isAddress source
            then (let (v, B1) = emitLoadOfCopy srcTL (Value source) (shouldTake source) B
                  in (Inr v, B1))
            else getOwnedScalar build source srcTL B) of
        (Inl e, B1) \<Rightarrow> (Inl e, B1)
      | (Inr v, B1) \<Rightarrow>
          (let (v', B2) = createUpcast v (getObjectType (LoweredType target)) B1
           in putOwnedScalar build v' target B2))"

text \<open>
  \<^verbatim>\<open>prepareForEmitSome\<close> and \<^verbatim>\<open>emitNone\<close> on a target whose formal type is not
  optional: with assertions the \<^verbatim>\<open>assert\<close> fails; with \<^verbatim>\<open>NDEBUG\<close> the source goes
  on to ask for the declaration of a case of no optional flavour, which is undefined.
  The same holds where the lowered type has no payload for the case asked for.
\<close>

definition prepareForEmitSome ::
    "BuildMode \<Rightarrow> Target \<Rightarrow> SILBuilder \<Rightarrow> (CastError + Target \<times> EmitSomeState) \<times> SILBuilder" where
  "prepareForEmitSome build target B =
     (case getAnyOptionalObjectTypeKind (Target.FormalType target) of
        None \<Rightarrow>
          (Inl (unmetAssertion build ''objectType && emitting Some into non-optional type''), B)
      | Some (optKind, objectType) \<Rightarrow>
          (let someDecl = getOptionalSomeDecl optKind;
               state = \<lparr>SomeDecl = someDecl\<rparr>
           in case getEnumElementType (LoweredType target) someDecl of
                None \<Rightarrow>
                  (Inl (unmetAssertion build
                     ''elt->getDeclContext() == getEnumOrBoundGenericEnum()''), B)
              | Some loweredObjectType \<Rightarrow>
                  (case Address target of
                     Some address \<Rightarrow>
                       (let (objectAddr, B1) =
                              createInitEnumDataAddr address someDecl loweredObjectType B
                        in case Target_address build objectAddr objectType of
                             Inl e \<Rightarrow> (Inl e, B1)
                           | Inr objectTarget \<Rightarrow> (Inr (objectTarget, state), B1))
                   | None \<Rightarrow>
                       (case Target_scalar build loweredObjectType objectType of
                          Inl e \<Rightarrow> (Inl e, B)
                        | Inr objectTarget \<Rightarrow> (Inr (objectTarget, state), B)))))"

definition emitSome ::
    "BuildMode \<Rightarrow> Source \<Rightarrow> Target \<Rightarrow> EmitSomeState \<Rightarrow> SILBuilder \<Rightarrow>
     (CastError + Source) \<times> SILBuilder" where
  "emitSome build source target state B =
     (case Address target of
        Some address \<Rightarrow>
          (let B1 = createInjectEnumAddr address (SomeDecl state) B
           in (asAddressSource build target, B1))
      | None \<Rightarrow>
          (let srcTL = getTypeLowering (getType (Value source)) in
           case getOwnedScalar build source srcTL B of
             (Inl e, B1) \<Rightarrow> (Inl e, B1)
           | (Inr sourceObject, B1) \<Rightarrow>
               (let (v, B2) = createEnum (Some sourceObject) (SomeDecl state) (LoweredType target) B1
                in (asScalarSource build target v, B2))))"

definition emitNone ::
    "BuildMode \<Rightarrow> Target \<Rightarrow> SILBuilder \<Rightarrow> (CastError + Source) \<times> SILBuilder" where
  "emitNone build target B =
     (case getAnyOptionalObjectTypeKind (Target.FormalType target) of
        None \<Rightarrow>
          (Inl (unmetAssertion build ''objectType && emitting None into non-optional type''), B)
      | Some (optKind, objectType) \<Rightarrow>
          (let noneDecl = getOptionalNoneDecl optKind in
           case Address target of
             Some address \<Rightarrow>
               (let B1 = createInjectEnumAddr address noneDecl B
                in (asAddressSource build target, B1))
           | None \<Rightarrow>
               (let (res, B1) = createEnum None noneDecl (LoweredType target) B
                in (asScalarSource build target res, B1))))"

text \<open>
  \<^verbatim>\<open>emitOptionalToOptional\<close> is split at its comments: the blocks and the switch
  ("Emit the switch"), the source of the payload ("Form the source value"), and what
  follows the recursive call (the deallocation, \<^verbatim>\<open>emitSome\<close>, the branch, the None
  block and the continuation block). \<open>emitOptionalToOptional_branch\<close> is the assertion
  and the branch that end both the Some and the None block.
\<close>

definition emitOptionalToOptional_switch ::
    "Source \<Rightarrow> OptionalTypeKind \<Rightarrow> SILBuilder \<Rightarrow> (nat \<times> nat \<times> nat) \<times> SILBuilder" where
  "emitOptionalToOptional_switch source sourceOptKind B =
     (let (contBB, B1) = splitBlockForFallthrough B;
          (noneBB, B2) = splitBlockForFallthrough B1;
          (someBB, B3) = splitBlockForFallthrough B2;
          cases = [(getOptionalSomeDecl sourceOptKind, someBB),
                   (getOptionalNoneDecl sourceOptKind, noneBB)];
          B4 = (if Source_isAddress source
                then createSwitchEnumAddr (Value source) cases B3
                else createSwitchEnum (Value source) cases B3)
      in ((contBB, noneBB, someBB), B4))"

definition emitOptionalToOptional_formSource ::
    "Source \<Rightarrow> EnumElementDecl \<Rightarrow> SILType \<Rightarrow> CanType \<Rightarrow> nat \<Rightarrow> SILBuilder \<Rightarrow>
     ((nat \<times> SILType) option \<times> Source) \<times> SILBuilder" where
  "emitOptionalToOptional_formSource source sourceSomeDecl loweredSourceObjectType
       sourceObjectType someBB B =
     (if Source_isAddress source
      then
        (let (sourceTemp, sourceAddr, B2) =
               (if \<not> shouldTake source
                then (let (temp, B1) = createAllocStack (getObjectType (getType (Value source))) B;
                          addr = getAddressResult temp
                      in (Some temp, addr,
                          createCopyAddr (Value source) addr IsNotTake IsInitialization B1))
                else (None, Value source, B));
             (sourceAddr', B3) =
               createUncheckedTakeEnumDataAddr sourceAddr sourceSomeDecl loweredSourceObjectType B2
         in ((sourceTemp,
              \<lparr>Value = sourceAddr', Source.FormalType = sourceObjectType,
               Consumption = TakeAlways\<rparr>), B3))
      else
        (let (sourceObjectValue, B1) = newSILArgument loweredSourceObjectType someBB B
         in ((None,
              \<lparr>Value = sourceObjectValue, Source.FormalType = sourceObjectType,
               Consumption = Consumption source\<rparr>), B1)))"

definition emitOptionalToOptional_branch ::
    "BuildMode \<Rightarrow> Source \<Rightarrow> Target \<Rightarrow> nat \<Rightarrow> SILBuilder \<Rightarrow> (CastError + unit) \<times> SILBuilder" where
  "emitOptionalToOptional_branch build result target contBB B =
     (if assertFails build (Source_isAddress result = Target_isAddress target)
      then (Inl (AssertionFailure ''result.isAddress() == target.isAddress()''), B)
      else (Inr (),
            if Target_isAddress target then createBranch contBB [] B
            else createBranch contBB [Value result] B))"

definition emitOptionalToOptional_finish ::
    "BuildMode \<Rightarrow> (nat \<times> SILType) option \<Rightarrow> Source \<Rightarrow> Target \<Rightarrow> EmitSomeState \<Rightarrow>
     nat \<Rightarrow> nat \<Rightarrow> SILBuilder \<Rightarrow> (CastError + Source) \<times> SILBuilder" where
  "emitOptionalToOptional_finish build sourceTemp resultObject target state contBB noneBB B =
     (let B1 = (case sourceTemp of
                  Some temp \<Rightarrow> createDeallocStack (getContainerResult temp) B
                | None \<Rightarrow> B)
      in case emitSome build resultObject target state B1 of
           (Inl e, B2) \<Rightarrow> (Inl e, B2)
         | (Inr result, B2) \<Rightarrow>
             (case emitOptionalToOptional_branch build result target contBB B2 of
                (Inl e, B3) \<Rightarrow> (Inl e, B3)
              | (Inr _, B3) \<Rightarrow>
                  (let B4 = setInsertionPoint noneBB B3 in
                   case emitNone build target B4 of
                     (Inl e, B5) \<Rightarrow> (Inl e, B5)
                   | (Inr result', B5) \<Rightarrow>
                       (case emitOptionalToOptional_branch build result' target contBB B5 of
                          (Inl e, B6) \<Rightarrow> (Inl e, B6)
                        | (Inr _, B6) \<Rightarrow>
                            (let B7 = setInsertionPoint contBB B6 in
                             if Target_isAddress target then (asAddressSource build target, B7)
                             else
                               (let (result'', B8) = newSILArgument (LoweredType target) contBB B7
                                in (asScalarSource build target result'', B8)))))))"

lemma emitOptionalToOptional_formSource_FormalType:
  "emitOptionalToOptional_formSource source decl lowered sourceObjectType someBB B =
     ((sourceTemp, objectSource), B') \<Longrightarrow>
   Source.FormalType objectSource = sourceObjectType"
  by (auto simp: emitOptionalToOptional_formSource_def Let_def split: if_splits prod.splits)

lemma getAnyOptionalObjectTypeKind_size:
  "getAnyOptionalObjectTypeKind type = Some (kind, objectType) \<Longrightarrow> size objectType < size type"
  by (cases type) auto

function emit ::
    "BuildMode \<Rightarrow> Source \<Rightarrow> Target \<Rightarrow> SILBuilder \<Rightarrow> (CastError + Source) \<times> SILBuilder"
  and emitOptionalToOptional ::
    "BuildMode \<Rightarrow> Source \<Rightarrow> OptionalTypeKind \<Rightarrow> CanType \<Rightarrow> Target \<Rightarrow> SILBuilder \<Rightarrow>
     (CastError + Source) \<times> SILBuilder" where
  "emit build source target B =
     (if Source.FormalType source = Target.FormalType target
      then emitSameType build source target B
      else
        (case getAnyOptionalObjectTypeKind (Source.FormalType source) of
           Some (sourceOptKind, sourceObjectType) \<Rightarrow>
             emitOptionalToOptional build source sourceOptKind sourceObjectType target B
         | None \<Rightarrow>
             (if assertFails build (getAnyOptionalObjectType (Target.FormalType target) = None)
              then (Inl (AssertionFailure ''!target.FormalType.getAnyOptionalObjectType()''), B)
              else emit_upcast build source target B)))"
| "emitOptionalToOptional build source sourceOptKind sourceObjectType target B =
     (case emitOptionalToOptional_switch source sourceOptKind B of
        ((contBB, noneBB, someBB), B1) \<Rightarrow>
          (let B2 = setInsertionPoint someBB B1;
               sourceSomeDecl = getOptionalSomeDecl sourceOptKind
           in case getEnumElementType (getType (Value source)) sourceSomeDecl of
                None \<Rightarrow>
                  (Inl (unmetAssertion build
                     ''elt->getDeclContext() == getEnumOrBoundGenericEnum()''), B2)
              | Some loweredSourceObjectType \<Rightarrow>
                  (case prepareForEmitSome build target B2 of
                     (Inl e, B3) \<Rightarrow> (Inl e, B3)
                   | (Inr (objectTarget, state), B3) \<Rightarrow>
                       (case emitOptionalToOptional_formSource source sourceSomeDecl
                               loweredSourceObjectType sourceObjectType someBB B3 of
                          ((sourceTemp, objectSource), B4) \<Rightarrow>
                            (case emit build objectSource objectTarget B4 of
                               (Inl e, B5) \<Rightarrow> (Inl e, B5)
                             | (Inr resultObject, B5) \<Rightarrow>
                                 emitOptionalToOptional_finish build sourceTemp resultObject
                                   target state contBB noneBB B5)))))"
  by pat_completeness auto
termination
  by (relation "measure (\<lambda>x. case x of
          Inl (build, source, target, B) \<Rightarrow> 2 * size (Source.FormalType source)
        | Inr (build, source, kind, sourceObjectType, target, B) \<Rightarrow>
            2 * size sourceObjectType + 1)")
     (auto dest!: getAnyOptionalObjectTypeKind_size
           dest: emitOptionalToOptional_formSource_FormalType [OF sym])

declare emit.simps [simp del] emitOptionalToOptional.simps [simp del]

fun emitAndInjectIntoOptionals ::
    "BuildMode \<Rightarrow> Source \<Rightarrow> Target \<Rightarrow> nat \<Rightarrow> SILBuilder \<Rightarrow>
     (CastError + Source) \<times> SILBuilder" where
  "emitAndInjectIntoOptionals build source target 0 B = emit build source target B"
| "emitAndInjectIntoOptionals build source target (Suc depth) B =
     (case prepareForEmitSome build target B of
        (Inl e, B1) \<Rightarrow> (Inl e, B1)
      | (Inr (objectTarget, state), B1) \<Rightarrow>
          (case emitAndInjectIntoOptionals build source objectTarget depth B1 of
             (Inl e, B2) \<Rightarrow> (Inl e, B2)
           | (Inr objectSource, B2) \<Rightarrow> emitSome build objectSource target state B2))"

definition emitTopLevel ::
    "BuildMode \<Rightarrow> Source \<Rightarrow> Target \<Rightarrow> SILBuilder \<Rightarrow> (CastError + Source) \<times> SILBuilder" where
  "emitTopLevel build source target B =
     (let sourceOptDepth = getOptionalDepth (Source.FormalType source);
          targetOptDepth = getOptionalDepth (Target.FormalType target)
      in if assertFails build (sourceOptDepth \<le> targetOptDepth)
         then (Inl (AssertionFailure ''sourceOptDepth <= targetOptDepth''), B)
         else emitAndInjectIntoOptionals build source target
                (unsignedMinus targetOptDepth sourceOptDepth) B)"

definition emitSuccessfulScalarUnconditionalCast ::
    "BuildMode \<Rightarrow> SILBuilder \<Rightarrow> SILValue \<Rightarrow> SILType \<Rightarrow> CanType \<Rightarrow> CanType \<Rightarrow>
     (CastError + SILValue) \<times> SILBuilder" where
  "emitSuccessfulScalarUnconditionalCast build B v loweredTargetType sourceType targetType =
     (if assertFails build (classifyDynamicCast sourceType targetType = WillSucceed)
      then (Inl (AssertionFailure
              ''classifyDynamicCast(M, sourceType, targetType) == DynamicCastFeasibility::WillSucceed''), B)
      else if sourceType = targetType then (Inr v, B)
      else
        (let source = \<lparr>Value = v, Source.FormalType = sourceType, Consumption = TakeAlways\<rparr> in
         case Target_scalar build loweredTargetType targetType of
           Inl e \<Rightarrow> (Inl e, B)
         | Inr target \<Rightarrow>
             (case emitTopLevel build source target B of
                (Inl e, B1) \<Rightarrow> (Inl e, B1)
              | (Inr result, B1) \<Rightarrow>
                  (if assertFails build (\<not> Source_isAddress result)
                   then (Inl (AssertionFailure ''!result.isAddress()''), B1)
                   else if assertFails build (getType (Value result) = loweredTargetType)
                   then (Inl (AssertionFailure ''result.Value.getType() == loweredTargetType''), B1)
                   else if assertFails build (Consumption result = TakeAlways)
                   then (Inl (AssertionFailure
                           ''result.Consumption == CastConsumptionKind::TakeAlways''), B1)
                   else (Inr (Value result), B1)))))"

definition emitSuccessfulIndirectUnconditionalCast ::
    "BuildMode \<Rightarrow> SILBuilder \<Rightarrow> CastConsumptionKind \<Rightarrow> SILValue \<Rightarrow> CanType \<Rightarrow> SILValue \<Rightarrow>
     CanType \<Rightarrow> (CastError + unit) \<times> SILBuilder" where
  "emitSuccessfulIndirectUnconditionalCast build B consumption src sourceType dest targetType =
     (if assertFails build (classifyDynamicCast sourceType targetType = WillSucceed)
      then (Inl (AssertionFailure
              ''classifyDynamicCast(M, sourceType, targetType) == DynamicCastFeasibility::WillSucceed''), B)
      else if assertFails build (isAddress (getType src))
      then (Inl (AssertionFailure ''src.getType().isAddress()''), B)
      else if assertFails build (isAddress (getType dest))
      then (Inl (AssertionFailure ''dest.getType().isAddress()''), B)
      else
        (let source = \<lparr>Value = src, Source.FormalType = sourceType, Consumption = consumption\<rparr> in
         case Target_address build dest targetType of
           Inl e \<Rightarrow> (Inl e, B)
         | Inr target \<Rightarrow>
             (case emitTopLevel build source target B of
                (Inl e, B1) \<Rightarrow> (Inl e, B1)
              | (Inr result, B1) \<Rightarrow>
                  (if assertFails build (Source_isAddress result)
                   then (Inl (AssertionFailure ''result.isAddress()''), B1)
                   else if assertFails build (Value result = dest)
                   then (Inl (AssertionFailure ''result.Value == dest''), B1)
                   else if assertFails build (Consumption result = TakeAlways)
                   then (Inl (AssertionFailure
                           ''result.Consumption == CastConsumptionKind::TakeAlways''), B1)
                   else (Inr (), B1)))))"

section \<open>Notions used to state the properties\<close>

text \<open>\<open>wrapOptionals ks A\<close> wraps \<open>A\<close> in one optional layer per element of \<open>ks\<close>,
  the head of the list being the flavour of the outermost layer.\<close>

fun wrapOptionals :: "OptionalTypeKind list \<Rightarrow> CanType \<Rightarrow> CanType" where
  "wrapOptionals [] A = A"
| "wrapOptionals (k # ks) A = OptionalType k (wrapOptionals ks A)"

text \<open>The metatype-nesting depth of a type as the specification describes it: the number of
  metatype layers, plain or existential, around the first type that is not a metatype.
  This is what the loop of \<^verbatim>\<open>getAnyMetatypeDepth\<close> walks over.\<close>

fun anyMetatypeNesting :: "CanType \<Rightarrow> nat" where
  "anyMetatypeNesting (MetatypeType t) = Suc (anyMetatypeNesting t)"
| "anyMetatypeNesting (ExistentialMetatypeType t) = Suc (anyMetatypeNesting t)"
| "anyMetatypeNesting _ = 0"

text \<open>Unwrapping paired metatype layers of the two types meets an existential metatype, on
  either side, before one of the sides stops being a metatype.\<close>

fun reachesExistentialMetatype :: "CanType \<Rightarrow> CanType \<Rightarrow> bool" where
  "reachesExistentialMetatype (MetatypeType s) (MetatypeType t) = reachesExistentialMetatype s t"
| "reachesExistentialMetatype (MetatypeType s) (ExistentialMetatypeType t) = True"
| "reachesExistentialMetatype (ExistentialMetatypeType s) (MetatypeType t) = True"
| "reachesExistentialMetatype (ExistentialMetatypeType s) (ExistentialMetatypeType t) = True"
| "reachesExistentialMetatype _ _ = False"

text \<open>The events that allocate or deallocate stack storage, and the sources for which
  \<^verbatim>\<open>emitOptionalToOptional\<close> needs a temporary: those held at an address whose
  consumption kind is copy-on-success.\<close>

fun isStackEvent :: "BuilderEvent \<Rightarrow> bool" where
  "isStackEvent (Create (AllocStackInst _ _)) = True"
| "isStackEvent (Create (DeallocStackInst _)) = True"
| "isStackEvent _ = False"

definition stackEvents :: "BuilderEvent list \<Rightarrow> BuilderEvent list" where
  "stackEvents es = filter isStackEvent es"

text \<open>The events that end a block or move the insertion point: after any other event the
  builder still inserts into the block it inserted into before.\<close>

fun isControlEvent :: "BuilderEvent \<Rightarrow> bool" where
  "isControlEvent (SplitBlockForFallthrough _) = True"
| "isControlEvent (SetInsertionPoint _) = True"
| "isControlEvent (Create (BranchInst _ _)) = True"
| "isControlEvent (Create (SwitchEnumInst _ _)) = True"
| "isControlEvent (Create (SwitchEnumAddrInst _ _)) = True"
| "isControlEvent _ = False"


text \<open>\<open>quiet B B'\<close>: the builder \<open>B'\<close> continues \<open>B\<close>, and nothing emitted in between
  allocates or deallocates stack storage. \<open>calm B B'\<close>: moreover nothing emitted in
  between ends a block or moves the insertion point, and no block was made.\<close>

definition quiet :: "SILBuilder \<Rightarrow> SILBuilder \<Rightarrow> bool" where
  "quiet B B' = (prefix (Events B) (Events B') \<and>
                 stackEvents (Events B') = stackEvents (Events B))"

definition neutral :: "BuilderEvent \<Rightarrow> bool" where
  "neutral e = (\<not> isControlEvent e \<and> \<not> isStackEvent e)"

definition calm :: "SILBuilder \<Rightarrow> SILBuilder \<Rightarrow> bool" where
  "calm B B' = (prefix (Events B) (Events B') \<and>
                list_all neutral (drop (length (Events B)) (Events B')) \<and>
                NextBlock B' = NextBlock B)"







subsection \<open>Example types and descriptors\<close>

definition exampleBase :: CanType where
  "exampleBase = ClassType (ClassDecl ''Base'' None)"

definition exampleDerived :: CanType where
  "exampleDerived = ClassType (ClassDecl ''Derived'' (Some (ClassDecl ''Base'' None)))"

definition exampleOther :: CanType where
  "exampleOther = ClassType (ClassDecl ''Other'' None)"

definition exampleBuilder :: SILBuilder where
  "exampleBuilder = \<lparr>Events = [], NextValue = 2, NextBlock = 0\<rparr>"

definition exampleAddressSource :: Source where
  "exampleAddressSource =
     \<lparr>Value = SILValue 0 0 \<lparr>RValueType = OptionalType OTK_Optional exampleDerived,
                             Category = AddressCategory\<rparr>,
      Source.FormalType = OptionalType OTK_Optional exampleDerived,
      Consumption = CopyOnSuccess\<rparr>"

definition exampleAddressTarget :: Target where
  "exampleAddressTarget =
     \<lparr>Address = Some (SILValue 1 0 \<lparr>RValueType = OptionalType OTK_Optional exampleBase,
                                    Category = AddressCategory\<rparr>),
      LoweredType = \<lparr>RValueType = OptionalType OTK_Optional exampleBase,
                     Category = AddressCategory\<rparr>,
      Target.FormalType = OptionalType OTK_Optional exampleBase\<rparr>"

definition exampleScalarSource :: Source where
  "exampleScalarSource =
     \<lparr>Value = SILValue 0 0 \<lparr>RValueType = exampleDerived, Category = ObjectCategory\<rparr>,
      Source.FormalType = exampleDerived,
      Consumption = TakeAlways\<rparr>"

definition exampleScalarTarget :: Target where
  "exampleScalarTarget =
     \<lparr>Address = None,
      LoweredType = \<lparr>RValueType = OptionalType OTK_Optional exampleBase,
                     Category = ObjectCategory\<rparr>,
      Target.FormalType = OptionalType OTK_Optional exampleBase\<rparr>"

definition exampleBaseValue :: SILValue where
  "exampleBaseValue = SILValue 0 0 \<lparr>RValueType = exampleBase, Category = ObjectCategory\<rparr>"

definition exampleBaseAddress :: SILValue where
  "exampleBaseAddress = SILValue 0 0 \<lparr>RValueType = exampleBase, Category = AddressCategory\<rparr>"

definition exampleOtherAddress :: SILValue where
  "exampleOtherAddress = SILValue 1 0 \<lparr>RValueType = exampleOther, Category = AddressCategory\<rparr>"

lemmas classifier_defs =
  classifyDynamicCast.simps metatypeLoop.simps classCasts_def isSuperclassOf_def
  getAnyOptionalObjectType_def getInstanceType_def isa_ExistentialMetatypeType_def
  getAnyMetatypeDepth_def getAnyMetatypeDepth_loop.simps weakenSuccess_def

lemmas example_defs =
  exampleBase_def exampleDerived_def exampleOther_def exampleBuilder_def
  exampleAddressSource_def exampleAddressTarget_def exampleScalarSource_def
  exampleScalarTarget_def exampleBaseValue_def exampleBaseAddress_def exampleOtherAddress_def

section \<open>Properties of the classifier\<close>

subsection \<open>Optional layers\<close>

lemma classify_same: "classifyDynamicCast T T = WillSucceed"
  by (subst classifyDynamicCast.simps) simp

lemma weakenSuccess_idem: "weakenSuccess (weakenSuccess v) = weakenSuccess v"
  by (simp add: weakenSuccess_def)

lemma weakenSuccess_not_WillSucceed: "weakenSuccess v \<noteq> WillSucceed"
  by (simp add: weakenSuccess_def)

lemma classify_both_optional:
  "s \<noteq> t \<or> k \<noteq> k' \<Longrightarrow>
   classifyDynamicCast (OptionalType k s) (OptionalType k' t) = classifyDynamicCast s t"
  by (subst classifyDynamicCast.simps) (auto simp: getAnyOptionalObjectType_def)

lemma classify_target_optional:
  "getAnyOptionalObjectType s = None \<Longrightarrow>
   classifyDynamicCast s (OptionalType k t) = classifyDynamicCast s t"
  by (subst classifyDynamicCast.simps) (auto simp: getAnyOptionalObjectType_def)

lemma classify_source_optional:
  "getAnyOptionalObjectType t = None \<Longrightarrow>
   classifyDynamicCast (OptionalType k s) t = weakenSuccess (classifyDynamicCast s t)"
  by (subst classifyDynamicCast.simps) (auto simp: getAnyOptionalObjectType_def)

lemma classify_WillSucceed_depth:
  "classifyDynamicCast S T = WillSucceed \<Longrightarrow> getOptionalDepth S \<le> getOptionalDepth T"
proof (induction S T rule: classifyDynamicCast.induct)
  case (1 source target)
  show ?case
  proof (cases "source = target")
    case True
    then show ?thesis by simp
  next
    case ne: False
    show ?thesis
    proof (cases "getAnyOptionalObjectType source")
      case sNone: None
      then show ?thesis by (simp add: getOptionalDepth_nonoptional)
    next
      case sSome: (Some sourceObject)
      show ?thesis
      proof (cases "getAnyOptionalObjectType target")
        case None
        with sSome ne "1.prems" show ?thesis
          by (subst (asm) classifyDynamicCast.simps) (simp add: weakenSuccess_not_WillSucceed)
      next
        case (Some targetObject)
        with sSome ne "1.prems"
        have "classifyDynamicCast sourceObject targetObject = WillSucceed"
          by (subst (asm) classifyDynamicCast.simps) simp
        with "1.IH"(3) [OF ne refl sSome Some]
        have "getOptionalDepth sourceObject \<le> getOptionalDepth targetObject" .
        with sSome Some show ?thesis
          by (simp add: getOptionalDepth_object)
      qed
    qed
  qed
qed

lemma wrapOptionals_inj:
  "getAnyOptionalObjectType A = None \<Longrightarrow> getAnyOptionalObjectType B = None \<Longrightarrow>
   wrapOptionals ks A = wrapOptionals ms B \<Longrightarrow> ks = ms \<and> A = B"
proof (induction ks ms rule: list_induct2')
  case 1
  then show ?case by simp
next
  case (2 k ks)
  then show ?case by (auto simp: getAnyOptionalObjectType_def)
next
  case (3 m ms)
  then show ?case by (auto simp: getAnyOptionalObjectType_def)
next
  case (4 k ks m ms)
  then show ?case by auto
qed

lemma classify_wrap_target:
  "getAnyOptionalObjectType A = None \<Longrightarrow>
   classifyDynamicCast A (wrapOptionals ms B) = classifyDynamicCast A B"
  by (induction ms) (simp_all add: classify_target_optional)

lemma classify_wrap_source:
  "getAnyOptionalObjectType B = None \<Longrightarrow>
   classifyDynamicCast (wrapOptionals (k # ks) A) B = weakenSuccess (classifyDynamicCast A B)"
  by (induction ks arbitrary: k) (simp_all add: classify_source_optional weakenSuccess_idem)

lemma classify_wrapOptionals:
  assumes A: "getAnyOptionalObjectType A = None" and B: "getAnyOptionalObjectType B = None"
  shows "classifyDynamicCast (wrapOptionals ks A) (wrapOptionals ms B) =
         (if length ks \<le> length ms then classifyDynamicCast A B
          else weakenSuccess (classifyDynamicCast A B))"
proof (induction ks ms rule: list_induct2')
  case 1
  then show ?case by simp
next
  case (2 k ks)
  from classify_wrap_source [OF B, of k ks A] show ?case by simp
next
  case (3 m ms)
  from classify_wrap_target [OF A, of "m # ms" B] show ?case by simp
next
  case (4 k ks m ms)
  show ?case
  proof (cases "wrapOptionals (k # ks) A = wrapOptionals (m # ms) B")
    case True
    from wrapOptionals_inj [OF A B True] have "k # ks = m # ms" "A = B" by simp_all
    then show ?thesis by (simp add: classify_same)
  next
    case False
    then have "wrapOptionals ks A \<noteq> wrapOptionals ms B \<or> k \<noteq> m" by auto
    from classify_both_optional [OF this] 4 show ?thesis by simp
  qed
qed

lemma classify_example_upcast: "classifyDynamicCast exampleDerived exampleBase = WillSucceed"
  by (simp add: classifier_defs example_defs)

text \<open>
  C4. A type always casts to itself: \<open>classifyDynamicCast T T\<close> is \<open>WillSucceed\<close>
  for every type \<open>T\<close>.
\<close>

theorem classifyDynamicCast_refl: "classifyDynamicCast T T = WillSucceed"
  by (subst classifyDynamicCast.simps) simp

text \<open>
  C3. For non-optional types \<open>A\<close> and \<open>B\<close>, wrapped in \<open>length ks\<close> and
  \<open>length ms\<close> optional layers: the verdict for the wrapped types is the verdict for
  \<open>A\<close> and \<open>B\<close> when the source has at most as many layers as the target, and the
  weakened verdict (\<open>WillSucceed\<close> demoted to \<open>MaySucceed\<close>, the other two unchanged)
  when the source has more. In particular, when \<open>A\<close> to \<open>B\<close> is \<open>WillSucceed\<close>,
  one more layer on the source gives \<open>MaySucceed\<close> and one more layer on the target
  gives \<open>WillSucceed\<close>.
\<close>

theorem classifyDynamicCast_optional_layers:
  assumes "getAnyOptionalObjectType A = None" and "getAnyOptionalObjectType B = None"
  shows "classifyDynamicCast (wrapOptionals ks A) (wrapOptionals ms B) =
           (if length ks \<le> length ms then classifyDynamicCast A B
            else weakenSuccess (classifyDynamicCast A B)) \<and>
         weakenSuccess WillSucceed = MaySucceed \<and>
         weakenSuccess MaySucceed = MaySucceed \<and>
         weakenSuccess WillFail = WillFail \<and>
         (classifyDynamicCast A B = WillSucceed \<longrightarrow>
            classifyDynamicCast (OptionalType k A) B = MaySucceed \<and>
            classifyDynamicCast A (OptionalType k' B) = WillSucceed)"
proof -
  have "classifyDynamicCast (OptionalType k A) B = weakenSuccess (classifyDynamicCast A B)"
    using assms(2) by (rule classify_source_optional)
  moreover have "classifyDynamicCast A (OptionalType k' B) = classifyDynamicCast A B"
    using assms(1) by (rule classify_target_optional)
  ultimately show ?thesis
    using classify_wrapOptionals [OF assms, of ks ms] by (simp add: weakenSuccess_def)
qed

theorem classifyDynamicCast_optional_layers_witness:
  "getAnyOptionalObjectType exampleDerived = None \<and>
   getAnyOptionalObjectType exampleBase = None \<and>
   classifyDynamicCast exampleDerived exampleBase = WillSucceed \<and>
   classifyDynamicCast (wrapOptionals [OTK_Optional, OTK_Optional] exampleDerived)
                       (wrapOptionals [OTK_Optional] exampleBase) = MaySucceed \<and>
   classifyDynamicCast (wrapOptionals [OTK_Optional] exampleDerived)
                       (wrapOptionals [OTK_Optional, OTK_ImplicitlyUnwrappedOptional] exampleBase)
     = WillSucceed \<and>
   classifyDynamicCast (OptionalType OTK_Optional exampleDerived) exampleBase = MaySucceed \<and>
   classifyDynamicCast exampleDerived (OptionalType OTK_Optional exampleBase) = WillSucceed"
proof -
  have A: "getAnyOptionalObjectType exampleDerived = None"
    by (simp add: exampleDerived_def getAnyOptionalObjectType_def)
  have B: "getAnyOptionalObjectType exampleBase = None"
    by (simp add: exampleBase_def getAnyOptionalObjectType_def)
  note up = classify_example_upcast
  from classifyDynamicCast_optional_layers
         [OF A B, of "[OTK_Optional, OTK_Optional]" "[OTK_Optional]" OTK_Optional OTK_Optional]
       classifyDynamicCast_optional_layers
         [OF A B, of "[OTK_Optional]" "[OTK_Optional, OTK_ImplicitlyUnwrappedOptional]"
            OTK_Optional OTK_Optional]
       A B up
  show ?thesis by (simp add: weakenSuccess_def)
qed

subsection \<open>Classes\<close>

lemma superclassWalk_size: "superclassWalk this d \<Longrightarrow> size this \<le> size d"
  by (induction this d rule: superclassWalk.induct) (auto split: if_splits)

lemma superclassWalk_strict: "superclassWalk this d \<Longrightarrow> this \<noteq> d \<Longrightarrow> size this < size d"
proof (induction this d rule: superclassWalk.induct)
  case (1 this name)
  then show ?case by auto
next
  case (2 this name super)
  then have "superclassWalk this super" by (auto split: if_splits)
  then have "size this \<le> size super" by (rule superclassWalk_size)
  then show ?case by simp
qed

lemma superclassWalk_antisym:
  "superclassWalk c d \<Longrightarrow> superclassWalk d c \<Longrightarrow> c = d"
  using superclassWalk_strict [of c d] superclassWalk_size [of d c] by fastforce

lemma isSuperclassOf_antisym:
  "isSuperclassOf S T \<Longrightarrow> isSuperclassOf T S \<Longrightarrow> S = T"
  by (cases S; cases T) (auto simp: isSuperclassOf_def dest: superclassWalk_antisym)

lemma metatypeLoop_nonmetatype:
  "dyn_cast_AnyMetatypeType source = None \<Longrightarrow> metatypeLoop source target = Inr (source, target)"
  by (subst metatypeLoop.simps) simp

lemma classify_classes:
  assumes "getClassOrBoundGenericClass S = Some s" "getClassOrBoundGenericClass T = Some t"
    and "S \<noteq> T"
  shows "classifyDynamicCast S T =
           (if isSuperclassOf T S then WillSucceed
            else if isSuperclassOf S T then MaySucceed else WillFail)"
proof -
  from assms obtain "S = ClassType s" "T = ClassType t"
    by (cases S; cases T) auto
  with assms(3) show ?thesis
    by (subst classifyDynamicCast.simps)
       (simp add: getAnyOptionalObjectType_def metatypeLoop_nonmetatype classCasts_def)
qed

text \<open>
  C5. For two distinct non-optional class types without archetypes or existentials: when
  the target is an ancestor-or-self of the source the verdict is \<open>WillSucceed\<close>; when
  the source is an ancestor of the target (a strict one, the types being distinct) it is
  \<open>MaySucceed\<close>; when neither is an ancestor of the other it is \<open>WillFail\<close> in both
  directions.
\<close>

theorem classifyDynamicCast_class_hierarchy:
  assumes "getClassOrBoundGenericClass S = Some s" and "getClassOrBoundGenericClass T = Some t"
    and "S \<noteq> T"
    and "getAnyOptionalObjectType S = None" and "getAnyOptionalObjectType T = None"
    and "\<not> hasArchetype S" and "\<not> isExistentialType S"
    and "\<not> hasArchetype T" and "\<not> isExistentialType T"
  shows "(isSuperclassOf T S \<longrightarrow> classifyDynamicCast S T = WillSucceed) \<and>
         (isSuperclassOf S T \<longrightarrow> classifyDynamicCast S T = MaySucceed) \<and>
         (\<not> isSuperclassOf S T \<and> \<not> isSuperclassOf T S \<longrightarrow>
            classifyDynamicCast S T = WillFail \<and> classifyDynamicCast T S = WillFail)"
proof -
  have ST: "classifyDynamicCast S T =
           (if isSuperclassOf T S then WillSucceed
            else if isSuperclassOf S T then MaySucceed else WillFail)"
    using assms(1-3) by (rule classify_classes)
  have TS: "classifyDynamicCast T S =
           (if isSuperclassOf S T then WillSucceed
            else if isSuperclassOf T S then MaySucceed else WillFail)"
    using assms(2,1) assms(3) [symmetric] by (rule classify_classes)
  have "isSuperclassOf S T \<Longrightarrow> \<not> isSuperclassOf T S"
    using isSuperclassOf_antisym assms(3) by blast
  with ST TS show ?thesis by auto
qed

theorem classifyDynamicCast_class_hierarchy_witness:
  "isSuperclassOf exampleBase exampleDerived \<and>
   classifyDynamicCast exampleDerived exampleBase = WillSucceed \<and>
   classifyDynamicCast exampleBase exampleDerived = MaySucceed \<and>
   \<not> isSuperclassOf exampleBase exampleOther \<and> \<not> isSuperclassOf exampleOther exampleBase \<and>
   classifyDynamicCast exampleBase exampleOther = WillFail \<and>
   classifyDynamicCast exampleOther exampleBase = WillFail"
proof -
  have up: "isSuperclassOf exampleBase exampleDerived"
    by (simp add: isSuperclassOf_def example_defs)
  have unrelated: "\<not> isSuperclassOf exampleBase exampleOther"
      "\<not> isSuperclassOf exampleOther exampleBase"
    by (simp_all add: isSuperclassOf_def example_defs)
  have 1: "classifyDynamicCast exampleDerived exampleBase = WillSucceed"
    using classifyDynamicCast_class_hierarchy
            [of exampleDerived "ClassDecl ''Derived'' (Some (ClassDecl ''Base'' None))"
                exampleBase "ClassDecl ''Base'' None"] up
    by (simp add: example_defs getAnyOptionalObjectType_def)
  have 2: "classifyDynamicCast exampleBase exampleDerived = MaySucceed"
    using classifyDynamicCast_class_hierarchy
            [of exampleBase "ClassDecl ''Base'' None"
                exampleDerived "ClassDecl ''Derived'' (Some (ClassDecl ''Base'' None))"] up
    by (simp add: example_defs getAnyOptionalObjectType_def)
  have 3: "classifyDynamicCast exampleBase exampleOther = WillFail \<and>
           classifyDynamicCast exampleOther exampleBase = WillFail"
    using classifyDynamicCast_class_hierarchy
            [of exampleBase "ClassDecl ''Base'' None" exampleOther "ClassDecl ''Other'' None"]
          unrelated
    by (simp add: example_defs getAnyOptionalObjectType_def)
  from up unrelated 1 2 3 show ?thesis by simp
qed

subsection \<open>Metatypes\<close>

lemma getAnyMetatypeDepth_loop_const: "getAnyMetatypeDepth_loop type depth = depth"
  by (induction type depth rule: getAnyMetatypeDepth_loop.induct)
     (subst getAnyMetatypeDepth_loop.simps, simp split: option.splits)

lemma getAnyMetatypeDepth_zero: "getAnyMetatypeDepth type = 0"
  by (simp add: getAnyMetatypeDepth_def getAnyMetatypeDepth_loop_const)

lemma metatypeLoop_existential:
  "reachesExistentialMetatype s t \<Longrightarrow> metatypeLoop s t = Inl MaySucceed"
  by (induction s t rule: reachesExistentialMetatype.induct)
     (subst metatypeLoop.simps,
      simp add: isa_ExistentialMetatypeType_def getInstanceType_def getAnyMetatypeDepth_zero)+

lemma reachesExistentialMetatype_top:
  "reachesExistentialMetatype s t \<Longrightarrow>
   getAnyOptionalObjectType s = None \<and> getAnyOptionalObjectType t = None \<and>
   \<not> isExistentialType s \<and> \<not> isExistentialType t"
  by (cases s; cases t) (auto simp: getAnyOptionalObjectType_def)

lemma classify_existential_metatype:
  "reachesExistentialMetatype s t \<Longrightarrow> s \<noteq> t \<Longrightarrow> \<not> hasArchetype s \<Longrightarrow> \<not> hasArchetype t \<Longrightarrow>
   classifyDynamicCast s t = MaySucceed"
  using reachesExistentialMetatype_top [of s t]
  by (subst classifyDynamicCast.simps) (simp add: metatypeLoop_existential)

text \<open>
  C10. \<^verbatim>\<open>getAnyMetatypeDepth\<close> returns 0 for every type: its loop never increments the
  counter. Hence, whenever the metatype loop of \<^verbatim>\<open>classifyDynamicCast\<close> meets an
  existential metatype on either side, the loop returns \<open>MaySucceed\<close>, whatever the
  metatype-nesting depths of the two sides are; and so does \<^verbatim>\<open>classifyDynamicCast\<close>
  for two distinct such types without archetypes.
\<close>

theorem getAnyMetatypeDepth_always_zero:
  "getAnyMetatypeDepth type = 0 \<and>
   (reachesExistentialMetatype source target \<longrightarrow>
      metatypeLoop source target = Inl MaySucceed \<and>
      (source \<noteq> target \<and> \<not> hasArchetype source \<and> \<not> hasArchetype target \<longrightarrow>
         classifyDynamicCast source target = MaySucceed))"
  using getAnyMetatypeDepth_zero [of type] metatypeLoop_existential [of source target]
        classify_existential_metatype [of source target]
  by blast

theorem getAnyMetatypeDepth_always_zero_witness:
  "getAnyMetatypeDepth (MetatypeType (MetatypeType exampleBase)) = 0 \<and>
   reachesExistentialMetatype
     (MetatypeType (ExistentialMetatypeType (ProtocolType ''P'')))
     (MetatypeType (MetatypeType (MetatypeType (MetatypeType exampleBase)))) \<and>
   metatypeLoop
     (MetatypeType (ExistentialMetatypeType (ProtocolType ''P'')))
     (MetatypeType (MetatypeType (MetatypeType (MetatypeType exampleBase)))) = Inl MaySucceed \<and>
   classifyDynamicCast
     (MetatypeType (ExistentialMetatypeType (ProtocolType ''P'')))
     (MetatypeType (MetatypeType (MetatypeType (MetatypeType exampleBase)))) = MaySucceed"
  using getAnyMetatypeDepth_always_zero
          [of "MetatypeType (MetatypeType exampleBase)"
              "MetatypeType (ExistentialMetatypeType (ProtocolType ''P''))"
              "MetatypeType (MetatypeType (MetatypeType (MetatypeType exampleBase)))"]
  by (simp add: exampleBase_def)

text \<open>
  C1. The specification has the metatype loop, on meeting an existential metatype, answer
  \<open>MaySucceed\<close> when the remaining metatype-nesting depths of the two instance types are
  equal and \<open>WillFail\<close> when they differ. The code does not: casting the existential
  metatype \<^verbatim>\<open>P.Type\<close> to \<^verbatim>\<open>Base.Type.Type\<close> leaves the instance types \<^verbatim>\<open>P\<close>, of
  depth 0, and \<^verbatim>\<open>Base.Type\<close>, of depth 1, and the verdict is \<open>MaySucceed\<close>.
\<close>

theorem classifyDynamicCast_ignores_metatype_depth:
  "reachesExistentialMetatype (ExistentialMetatypeType (ProtocolType ''P''))
                              (MetatypeType (MetatypeType exampleBase)) \<and>
   anyMetatypeNesting (ProtocolType ''P'') = 0 \<and>
   anyMetatypeNesting (MetatypeType exampleBase) = 1 \<and>
   classifyDynamicCast (ExistentialMetatypeType (ProtocolType ''P''))
                       (MetatypeType (MetatypeType exampleBase)) = MaySucceed"
  by (simp add: classifier_defs exampleBase_def)

subsection \<open>Termination\<close>

lemma classifyDynamicCast_rel_decreases:
  "classifyDynamicCast_rel (source', target') (source, target) \<Longrightarrow>
   getOptionalDepth source' + getOptionalDepth target' <
   getOptionalDepth source + getOptionalDepth target"
  by (erule classifyDynamicCast_rel.cases)
     (auto dest!: getOptionalDepth_object [OF sym])

lemma anyMetatypeNesting_instance:
  "dyn_cast_AnyMetatypeType type = Some metatype \<Longrightarrow>
   anyMetatypeNesting (getInstanceType metatype) < anyMetatypeNesting type"
  by (cases type) (auto simp: getInstanceType_def)

lemma metatypeLoop_rel_decreases:
  "metatypeLoop_rel (source', target') (source, target) \<Longrightarrow>
   anyMetatypeNesting source' < anyMetatypeNesting source"
  by (erule metatypeLoop_rel.cases) (auto dest: anyMetatypeNesting_instance)

lemma classifyDynamicCast_dom_all: "classifyDynamicCast_dom (source, target)"
proof (induction "getOptionalDepth source + getOptionalDepth target"
       arbitrary: source target rule: less_induct)
  case less
  show ?case
  proof (rule accpI)
    fix y
    assume rel: "classifyDynamicCast_rel y (source, target)"
    obtain source' target' where y: "y = (source', target')" by (cases y)
    with rel have "getOptionalDepth source' + getOptionalDepth target' <
        getOptionalDepth source + getOptionalDepth target"
      by (simp add: classifyDynamicCast_rel_decreases)
    then have "classifyDynamicCast_dom (source', target')" by (rule less)
    with y show "classifyDynamicCast_dom y" by simp
  qed
qed

lemma getAnyMetatypeDepth_loop_dom_all: "getAnyMetatypeDepth_loop_dom (type, depth)"
proof (induction "anyMetatypeNesting type" arbitrary: type depth rule: less_induct)
  case less
  show ?case
  proof (rule accpI)
    fix y
    assume rel: "getAnyMetatypeDepth_loop_rel y (type, depth)"
    obtain type' depth' where y: "y = (type', depth')" by (cases y)
    with rel have "anyMetatypeNesting type' < anyMetatypeNesting type"
      by (auto elim!: getAnyMetatypeDepth_loop_rel.cases dest: anyMetatypeNesting_instance)
    then have "getAnyMetatypeDepth_loop_dom (type', depth')" by (rule less)
    with y show "getAnyMetatypeDepth_loop_dom y" by simp
  qed
qed

lemma metatypeLoop_dom_all: "metatypeLoop_dom (source, target)"
proof (induction "anyMetatypeNesting source" arbitrary: source target rule: less_induct)
  case less
  show ?case
  proof (rule accpI)
    fix y
    assume rel: "metatypeLoop_rel y (source, target)"
    obtain source' target' where y: "y = (source', target')" by (cases y)
    with rel have "anyMetatypeNesting source' < anyMetatypeNesting source"
      by (simp add: metatypeLoop_rel_decreases)
    then have "metatypeLoop_dom (source', target')" by (rule less)
    with y show "metatypeLoop_dom y" by simp
  qed
qed

text \<open>
  C7. \<^verbatim>\<open>classifyDynamicCast\<close> terminates on every pair of types and returns one of the
  three verdicts. \<open>classifyDynamicCast_dom\<close> holds of the arguments on which the
  recursion terminates, and \<open>classifyDynamicCast_rel x' x\<close> holds when the call on \<open>x\<close>
  makes a recursive call on \<open>x'\<close>; likewise for the metatype loop and for the loop of
  \<^verbatim>\<open>getAnyMetatypeDepth\<close>, which the metatype loop calls. Every recursive call
  is on types with fewer optional layers, and every iteration of the loop continues with a
  source of smaller metatype-nesting depth.
\<close>

theorem classifyDynamicCast_total:
  "classifyDynamicCast_dom (source, target) \<and>
   metatypeLoop_dom (source, target) \<and>
   getAnyMetatypeDepth_loop_dom (source, 0) \<and>
   getAnyMetatypeDepth_loop_dom (target, 0) \<and>
   classifyDynamicCast source target \<in> {WillSucceed, MaySucceed, WillFail} \<and>
   (\<forall>source' target'.
      classifyDynamicCast_rel (source', target') (source, target) \<longrightarrow>
      getOptionalDepth source' + getOptionalDepth target' <
      getOptionalDepth source + getOptionalDepth target) \<and>
   (\<forall>source' target'.
      metatypeLoop_rel (source', target') (source, target) \<longrightarrow>
      anyMetatypeNesting source' < anyMetatypeNesting source)"
proof -
  have "classifyDynamicCast source target \<in> {WillSucceed, MaySucceed, WillFail}"
    by (cases "classifyDynamicCast source target") simp_all
  then show ?thesis
    using classifyDynamicCast_dom_all metatypeLoop_dom_all getAnyMetatypeDepth_loop_dom_all
          classifyDynamicCast_rel_decreases metatypeLoop_rel_decreases
    by blast
qed

theorem classifyDynamicCast_total_witness:
  "classifyDynamicCast_rel
     (exampleDerived, exampleBase)
     (OptionalType OTK_Optional exampleDerived, OptionalType OTK_Optional exampleBase) \<and>
   getOptionalDepth exampleDerived + getOptionalDepth exampleBase <
   getOptionalDepth (OptionalType OTK_Optional exampleDerived) +
   getOptionalDepth (OptionalType OTK_Optional exampleBase) \<and>
   metatypeLoop_rel (exampleDerived, exampleBase)
     (MetatypeType exampleDerived, MetatypeType exampleBase) \<and>
   anyMetatypeNesting exampleDerived < anyMetatypeNesting (MetatypeType exampleDerived)"
proof -
  have r1: "classifyDynamicCast_rel
     (exampleDerived, exampleBase)
     (OptionalType OTK_Optional exampleDerived, OptionalType OTK_Optional exampleBase)"
    by (rule classifyDynamicCast_rel.intros(3)
          [of _ _ "Some exampleDerived" "Some exampleBase"])
       (simp_all add: getAnyOptionalObjectType_def example_defs)
  have r2: "metatypeLoop_rel (exampleDerived, exampleBase)
     (MetatypeType exampleDerived, MetatypeType exampleBase)"
    using metatypeLoop_rel.intros
            [of "MetatypeType exampleDerived" "(PlainMetatype, exampleDerived)"
                "MetatypeType exampleBase" "(PlainMetatype, exampleBase)"]
    by (simp add: getInstanceType_def isa_ExistentialMetatypeType_def)
  from classifyDynamicCast_total
         [of "OptionalType OTK_Optional exampleDerived" "OptionalType OTK_Optional exampleBase"]
       r1
  have d1: "getOptionalDepth exampleDerived + getOptionalDepth exampleBase <
   getOptionalDepth (OptionalType OTK_Optional exampleDerived) +
   getOptionalDepth (OptionalType OTK_Optional exampleBase)"
    by blast
  from classifyDynamicCast_total [of "MetatypeType exampleDerived" "MetatypeType exampleBase"]
       r2
  have d2: "anyMetatypeNesting exampleDerived < anyMetatypeNesting (MetatypeType exampleDerived)"
    by blast
  from r1 d1 r2 d2 show ?thesis by simp
qed

section \<open>Properties of the emitter\<close>

subsection \<open>Preconditions\<close>

lemmas primitive_defs =
  record_event_def
  splitBlockForFallthrough_def setInsertionPoint_def createSwitchEnumAddr_def
  createSwitchEnum_def createCopyAddr_def createUncheckedTakeEnumDataAddr_def
  createBranch_def createUpcast_def createInitEnumDataAddr_def createInjectEnumAddr_def
  createEnum_def newSILArgument_def emitRetainValue_def emitLoadOfCopy_def
  emitStoreOfCopy_def emitCopyInto_def

lemmas emitter_defs =
  emit.simps emitOptionalToOptional.simps emitOptionalToOptional_switch_def
  emitOptionalToOptional_formSource_def emitOptionalToOptional_branch_def
  emitOptionalToOptional_finish_def emitSameType_def emit_upcast_def
  prepareForEmitSome_def emitSome_def emitNone_def getOwnedScalar_def putOwnedScalar_def
  asAddressSource_def asScalarSource_def Target_address_def Target_scalar_def
  Source_isAddress_def Target_isAddress_def shouldTake_def isAddress_def
  getObjectType_def getAddressType_def getLocalStorageType_def
  getOptionalSomeDecl_def getOptionalNoneDecl_def getEnumElementType_def
  getTypeLowering_def getContainerResult_def getAddressResult_def createAllocStack_def
  createDeallocStack_def IsInitialization_def IsNotTake_def
  getAnyOptionalObjectType_def assertFails_def unmetAssertion_def

text \<open>
  C6. When the source and target formal types are identical,
  \<^verbatim>\<open>emitSuccessfulScalarUnconditionalCast\<close> returns the value it was given, and the
  builder is as it was: nothing is emitted, and no descriptor is constructed (the lowered
  target type is not even inspected). This holds in either build.
\<close>

theorem emitSuccessfulScalarUnconditionalCast_same_type:
  "emitSuccessfulScalarUnconditionalCast build B v loweredTargetType T T = (Inr v, B)"
  by (simp add: emitSuccessfulScalarUnconditionalCast_def classify_same assertFails_def)

text \<open>
  C8, as the claim states it, for every build: it fails with \<^verbatim>\<open>NDEBUG\<close>. The class
  \<^verbatim>\<open>Base\<close> casts to the unrelated class \<^verbatim>\<open>Other\<close> with verdict \<open>WillFail\<close>, yet
  the scalar entry point succeeds and has emitted an upcast, and the indirect entry point
  succeeds and has emitted a load, an upcast and a store.
\<close>

theorem emission_checks_precede_emission_counterexample:
  "classifyDynamicCast exampleBase exampleOther = WillFail \<and>
   emitSuccessfulScalarUnconditionalCast NDEBUG exampleBuilder exampleBaseValue
       \<lparr>RValueType = exampleOther, Category = ObjectCategory\<rparr> exampleBase exampleOther =
     (Inr (SILValue 2 0 \<lparr>RValueType = exampleOther, Category = ObjectCategory\<rparr>),
      \<lparr>Events =
         [Create (UpcastInst 2 exampleBaseValue
                    \<lparr>RValueType = exampleOther, Category = ObjectCategory\<rparr>)],
       NextValue = 3, NextBlock = 0\<rparr>) \<and>
   emitSuccessfulIndirectUnconditionalCast NDEBUG exampleBuilder TakeAlways exampleBaseAddress
       exampleBase exampleOtherAddress exampleOther =
     (Inr (),
      \<lparr>Events =
         [EmitLoadOfCopy \<lparr>RValueType = exampleBase, Category = AddressCategory\<rparr> 2
            exampleBaseAddress True,
          Create (UpcastInst 3
                    (SILValue 2 0 \<lparr>RValueType = exampleBase, Category = ObjectCategory\<rparr>)
                    \<lparr>RValueType = exampleOther, Category = ObjectCategory\<rparr>),
          EmitStoreOfCopy \<lparr>RValueType = exampleOther, Category = AddressCategory\<rparr>
            (SILValue 3 0 \<lparr>RValueType = exampleOther, Category = ObjectCategory\<rparr>)
            exampleOtherAddress True],
       NextValue = 4, NextBlock = 0\<rparr>)"
proof -
  have c: "classifyDynamicCast exampleBase exampleOther = WillFail"
    by (simp add: classifier_defs example_defs)
  have s: "emitSuccessfulScalarUnconditionalCast NDEBUG exampleBuilder exampleBaseValue
       \<lparr>RValueType = exampleOther, Category = ObjectCategory\<rparr> exampleBase exampleOther =
     (Inr (SILValue 2 0 \<lparr>RValueType = exampleOther, Category = ObjectCategory\<rparr>),
      \<lparr>Events =
         [Create (UpcastInst 2 exampleBaseValue
                    \<lparr>RValueType = exampleOther, Category = ObjectCategory\<rparr>)],
       NextValue = 3, NextBlock = 0\<rparr>)"
    by (simp add: emitSuccessfulScalarUnconditionalCast_def emitTopLevel_def unsignedMinus_def
          getOptionalDepth_nonoptional emitter_defs primitive_defs Let_def example_defs)
  have i: "emitSuccessfulIndirectUnconditionalCast NDEBUG exampleBuilder TakeAlways
       exampleBaseAddress exampleBase exampleOtherAddress exampleOther =
     (Inr (),
      \<lparr>Events =
         [EmitLoadOfCopy \<lparr>RValueType = exampleBase, Category = AddressCategory\<rparr> 2
            exampleBaseAddress True,
          Create (UpcastInst 3
                    (SILValue 2 0 \<lparr>RValueType = exampleBase, Category = ObjectCategory\<rparr>)
                    \<lparr>RValueType = exampleOther, Category = ObjectCategory\<rparr>),
          EmitStoreOfCopy \<lparr>RValueType = exampleOther, Category = AddressCategory\<rparr>
            (SILValue 3 0 \<lparr>RValueType = exampleOther, Category = ObjectCategory\<rparr>)
            exampleOtherAddress True],
       NextValue = 4, NextBlock = 0\<rparr>)"
    by (simp add: emitSuccessfulIndirectUnconditionalCast_def emitTopLevel_def unsignedMinus_def
          getOptionalDepth_nonoptional emitter_defs primitive_defs Let_def example_defs)
  from c s i show ?thesis by simp
qed

text \<open>
  C8, amended: in a build with assertions enabled, both entry points check the verdict of
  the classifier first: on a pair of types that is not rated \<open>WillSucceed\<close> each fails
  its first assertion and leaves the builder as it was. \<^verbatim>\<open>emitTopLevel\<close> checks the
  optional depths before it emits anything: when the source has more optional layers than
  the target it fails its assertion and leaves the builder as it was.
\<close>

theorem emission_checks_precede_emission:
  "(classifyDynamicCast sourceType targetType \<noteq> WillSucceed \<longrightarrow>
      emitSuccessfulScalarUnconditionalCast AssertsEnabled B v loweredTargetType
          sourceType targetType =
        (Inl (AssertionFailure
           ''classifyDynamicCast(M, sourceType, targetType) == DynamicCastFeasibility::WillSucceed''),
         B) \<and>
      emitSuccessfulIndirectUnconditionalCast AssertsEnabled B consumption src sourceType
          dest targetType =
        (Inl (AssertionFailure
           ''classifyDynamicCast(M, sourceType, targetType) == DynamicCastFeasibility::WillSucceed''),
         B)) \<and>
   (getOptionalDepth (Target.FormalType target) < getOptionalDepth (Source.FormalType source) \<longrightarrow>
      emitTopLevel AssertsEnabled source target B =
        (Inl (AssertionFailure ''sourceOptDepth <= targetOptDepth''), B))"
  by (simp add: emitSuccessfulScalarUnconditionalCast_def
        emitSuccessfulIndirectUnconditionalCast_def emitTopLevel_def Let_def assertFails_def)

theorem emission_checks_precede_emission_witness:
  "classifyDynamicCast (OptionalType OTK_Optional exampleBase) exampleBase = MaySucceed \<and>
   emitSuccessfulScalarUnconditionalCast AssertsEnabled exampleBuilder
       (Value exampleScalarSource) (LoweredType exampleScalarTarget)
       (OptionalType OTK_Optional exampleBase) exampleBase =
     (Inl (AssertionFailure
        ''classifyDynamicCast(M, sourceType, targetType) == DynamicCastFeasibility::WillSucceed''),
      exampleBuilder) \<and>
   emitSuccessfulIndirectUnconditionalCast AssertsEnabled exampleBuilder CopyOnSuccess
       (Value exampleAddressSource) (OptionalType OTK_Optional exampleBase)
       (Value exampleAddressSource) exampleBase =
     (Inl (AssertionFailure
        ''classifyDynamicCast(M, sourceType, targetType) == DynamicCastFeasibility::WillSucceed''),
      exampleBuilder) \<and>
   getOptionalDepth (Target.FormalType exampleScalarTarget) <
     getOptionalDepth (Source.FormalType
        (exampleScalarSource\<lparr>Source.FormalType :=
           OptionalType OTK_Optional (OptionalType OTK_Optional exampleBase)\<rparr>)) \<and>
   emitTopLevel AssertsEnabled
       (exampleScalarSource\<lparr>Source.FormalType :=
           OptionalType OTK_Optional (OptionalType OTK_Optional exampleBase)\<rparr>)
       exampleScalarTarget exampleBuilder =
     (Inl (AssertionFailure ''sourceOptDepth <= targetOptDepth''), exampleBuilder)"
proof -
  have c: "classifyDynamicCast (OptionalType OTK_Optional exampleBase) exampleBase = MaySucceed"
    by (simp add: classifier_defs example_defs)
  have d: "getOptionalDepth (Target.FormalType exampleScalarTarget) <
     getOptionalDepth (Source.FormalType
        (exampleScalarSource\<lparr>Source.FormalType :=
           OptionalType OTK_Optional (OptionalType OTK_Optional exampleBase)\<rparr>))"
    by (simp add: exampleScalarTarget_def getOptionalDepth_OptionalType)
  from c d
    emission_checks_precede_emission
      [of "OptionalType OTK_Optional exampleBase" exampleBase exampleBuilder
          "Value exampleScalarSource" "LoweredType exampleScalarTarget" CopyOnSuccess
          "Value exampleAddressSource" "Value exampleAddressSource" exampleScalarTarget
          "exampleScalarSource\<lparr>Source.FormalType :=
             OptionalType OTK_Optional (OptionalType OTK_Optional exampleBase)\<rparr>"]
  show ?thesis by simp
qed

text \<open>
  C2. A pair of types rated \<open>WillSucceed\<close> has no more optional layers on the source
  than on the target. Hence, on descriptors with such formal types and in either build,
  the assertion \<^verbatim>\<open>sourceOptDepth <= targetOptDepth\<close> of \<^verbatim>\<open>emitTopLevel\<close> holds, and
  \<^verbatim>\<open>emitTopLevel\<close> goes on to \<^verbatim>\<open>emitAndInjectIntoOptionals\<close> with the difference
  of the depths.
\<close>

theorem WillSucceed_optional_depth:
  assumes "classifyDynamicCast S T = WillSucceed"
  shows "getOptionalDepth S \<le> getOptionalDepth T \<and>
         (\<forall>build source target B.
            Source.FormalType source = S \<and> Target.FormalType target = T \<longrightarrow>
            emitTopLevel build source target B =
              emitAndInjectIntoOptionals build source target
                (getOptionalDepth T - getOptionalDepth S) B)"
  using classify_WillSucceed_depth [OF assms]
  by (simp add: emitTopLevel_def Let_def assertFails_def unsignedMinus_def)

theorem WillSucceed_optional_depth_witness:
  "classifyDynamicCast exampleDerived (OptionalType OTK_Optional exampleBase) = WillSucceed \<and>
   getOptionalDepth exampleDerived \<le> getOptionalDepth (OptionalType OTK_Optional exampleBase) \<and>
   emitTopLevel AssertsEnabled exampleScalarSource exampleScalarTarget exampleBuilder =
     emitAndInjectIntoOptionals AssertsEnabled exampleScalarSource exampleScalarTarget
       (getOptionalDepth (OptionalType OTK_Optional exampleBase) - getOptionalDepth exampleDerived)
       exampleBuilder \<and>
   emitTopLevel NDEBUG exampleScalarSource exampleScalarTarget exampleBuilder =
     emitAndInjectIntoOptionals NDEBUG exampleScalarSource exampleScalarTarget
       (getOptionalDepth (OptionalType OTK_Optional exampleBase) - getOptionalDepth exampleDerived)
       exampleBuilder"
proof -
  have c: "classifyDynamicCast exampleDerived (OptionalType OTK_Optional exampleBase) =
           WillSucceed"
    by (simp add: classifier_defs example_defs)
  have "Source.FormalType exampleScalarSource = exampleDerived"
       "Target.FormalType exampleScalarTarget = OptionalType OTK_Optional exampleBase"
    by (simp_all add: exampleScalarSource_def exampleScalarTarget_def)
  with c WillSucceed_optional_depth [OF c] show ?thesis by blast
qed

subsection \<open>Stack temporaries\<close>


lemma stackEvents_Nil [simp]: "stackEvents [] = []"
  by (simp add: stackEvents_def)

lemma stackEvents_Cons [simp]:
  "stackEvents (e # es) = (if isStackEvent e then e # stackEvents es else stackEvents es)"
  by (simp add: stackEvents_def)


lemma quiet_refl [simp]: "quiet B B"
  by (simp add: quiet_def)



lemma calmI:
  "Events B' = Events B @ es \<Longrightarrow> list_all neutral es \<Longrightarrow> NextBlock B' = NextBlock B \<Longrightarrow>
   calm B B'"
  by (simp add: calm_def)

lemma calmE:
  assumes "calm B B'"
  obtains es where "Events B' = Events B @ es" "list_all neutral es"
    "NextBlock B' = NextBlock B"
proof -
  from assms obtain es where es: "Events B' = Events B @ es"
    by (auto simp: calm_def prefix_def)
  with assms have "list_all neutral es" "NextBlock B' = NextBlock B"
    by (simp_all add: calm_def)
  with es show thesis by (rule that)
qed

lemma calm_refl [simp]: "calm B B"
  by (simp add: calm_def)

lemma calm_trans: "calm B B1 \<Longrightarrow> calm B1 B2 \<Longrightarrow> calm B B2"
proof -
  assume "calm B B1" "calm B1 B2"
  then obtain es fs where "Events B1 = Events B @ es" "list_all neutral es"
      "NextBlock B1 = NextBlock B" "Events B2 = Events B1 @ fs" "list_all neutral fs"
      "NextBlock B2 = NextBlock B1"
    by (elim calmE)
  then show ?thesis by (intro calmI [of _ _ "es @ fs"]) simp_all
qed


lemmas calm_unfold = calm_def neutral_def primitive_defs assertFails_def

lemma getOwnedScalar_calm: "getOwnedScalar build source TL B = (r, B') \<Longrightarrow> calm B B'"
  by (auto simp: getOwnedScalar_def calm_unfold split: if_splits)

lemma putOwnedScalar_calm: "putOwnedScalar build v target B = (r, B') \<Longrightarrow> calm B B'"
  by (auto simp: putOwnedScalar_def calm_unfold Let_def split: if_splits option.splits)



























end
